theory Spec2Isabelle
  imports Complex_Main "HOL-Library.Log_Nat"
begin

section \<open>JavaScript numbers\<close>

text \<open>
  The component \<^verbatim>\<open>src/components/MoonBitcoinAnalysis.js\<close> computes with JavaScript
  numbers, which are IEEE 754 binary64 values. A finite number is represented by the
  rational it denotes; every arithmetic result is rounded to the nearest binary64 value,
  ties to even, by \<open>fl\<close>. The two zeros are identified: the sign of a zero is not
  observable in the fields that \<^verbatim>\<open>processData\<close> publishes (\<^verbatim>\<open>toFixed\<close> prints both
  as \<^verbatim>\<open>0.00\<close>).
\<close>

datatype number = Fin rat | PosInf | NegInf | NaN

definition pow2 :: "int \<Rightarrow> rat" where
  "pow2 e = (if 0 \<le> e then 2 ^ nat e else 1 / 2 ^ nat (- e))"

text \<open>The binary exponent of a positive rational: \<open>pow2 (ilog2 q) \<le> q < pow2 (ilog2 q + 1)\<close>.\<close>

definition ilog2 :: "rat \<Rightarrow> int" where
  "ilog2 q =
     (if 1 \<le> q then bitlen \<lfloor>q\<rfloor> - 1
      else let k = bitlen \<lfloor>1 / q\<rfloor> - 1
           in if 1 / q = pow2 k then - k else - k - 1)"

definition round_half_even :: "rat \<Rightarrow> int" where
  "round_half_even x =
     (let f = \<lfloor>x\<rfloor>; d = x - of_int f
      in if d < 1 / 2 then f
         else if 1 / 2 < d then f + 1
         else if even f then f else f + 1)"

text \<open>
  Rounding of a real value to binary64: 53 significant bits, exponents from \<open>-1022\<close>
  (below that the spacing of the subnormal numbers), overflow to an infinity.
\<close>

definition fl :: "rat \<Rightarrow> number" where
  "fl q =
     (if q = 0 then Fin 0
      else let e = max (ilog2 \<bar>q\<bar>) (- 1022);
               u = pow2 (e - 52);
               r = of_int (round_half_even (\<bar>q\<bar> / u)) * u
           in if pow2 1024 \<le> r then (if q < 0 then NegInf else PosInf)
              else Fin (if q < 0 then - r else r))"

text \<open>The operator \<^verbatim>\<open>+\<close> on two numbers.\<close>

fun num_add :: "number \<Rightarrow> number \<Rightarrow> number" where
  "num_add NaN _ = NaN"
| "num_add _ NaN = NaN"
| "num_add PosInf NegInf = NaN"
| "num_add NegInf PosInf = NaN"
| "num_add PosInf _ = PosInf"
| "num_add _ PosInf = PosInf"
| "num_add NegInf _ = NegInf"
| "num_add _ NegInf = NegInf"
| "num_add (Fin a) (Fin b) = fl (a + b)"

text \<open>
  The operator \<^verbatim>\<open>/\<close> with an array length as divisor. The only divisions of the
  component are those of \<^verbatim>\<open>_.mean\<close>, which divides by a length it has tested to be
  non-zero.
\<close>

fun num_div_length :: "number \<Rightarrow> nat \<Rightarrow> number" where
  "num_div_length (Fin a) n = fl (a / of_nat n)"
| "num_div_length x n = x"

text \<open>The comparisons \<^verbatim>\<open><\<close> and \<^verbatim>\<open>>\<close>: false as soon as one side is \<^verbatim>\<open>NaN\<close>.\<close>

fun num_lt :: "number \<Rightarrow> number \<Rightarrow> bool" where
  "num_lt NaN _ = False"
| "num_lt _ NaN = False"
| "num_lt PosInf _ = False"
| "num_lt _ PosInf = True"
| "num_lt _ NegInf = False"
| "num_lt NegInf _ = True"
| "num_lt (Fin a) (Fin b) = (a < b)"

definition num_gt :: "number \<Rightarrow> number \<Rightarrow> bool" where
  "num_gt x y = num_lt y x"

section \<open>JavaScript values and conversions\<close>

text \<open>
  The rows are produced by Papa.parse with \<^verbatim>\<open>header: true\<close> and
  \<^verbatim>\<open>dynamicTyping: true\<close>: a cell is a number, a boolean, \<^verbatim>\<open>null\<close> (an empty cell) or a
  string, and the property is \<^verbatim>\<open>undefined\<close> in a row that is too short. (A cell holding
  an ISO date with a time part would become a Date object; the price column is not
  modelled with such cells.) Strings are lists of code units below 256.
\<close>

datatype js_value = Undefined | Null | Bool bool | Num number | Str string

subsection \<open>Reading a number from a string\<close>

definition is_digit :: "char \<Rightarrow> bool" where
  "is_digit c = (48 \<le> (of_char c :: nat) \<and> (of_char c :: nat) \<le> 57)"

definition digit_val :: "char \<Rightarrow> nat" where
  "digit_val c = of_char c - 48"

definition digits_value :: "string \<Rightarrow> nat" where
  "digits_value ds = foldl (\<lambda>acc c. 10 * acc + digit_val c) 0 ds"

text \<open>White space and line terminators: TAB, LF, VT, FF, CR, SP and NBSP.\<close>

definition is_ws :: "char \<Rightarrow> bool" where
  "is_ws c = ((of_char c :: nat) \<in> {9, 10, 11, 12, 13, 32, 160})"

definition trim :: "string \<Rightarrow> string" where
  "trim s = rev (dropWhile is_ws (rev (dropWhile is_ws s)))"

text \<open>The mathematical value of an unsigned decimal literal.\<close>

datatype literal = Infinity_lit | Decimal_lit rat

definition pow10 :: "int \<Rightarrow> rat" where
  "pow10 e = (if 0 \<le> e then 10 ^ nat e else 1 / 10 ^ nat (- e))"

text \<open>
  An exponent part: \<^verbatim>\<open>e\<close>, an optional sign, at least one digit. It is read only when
  it is complete; otherwise nothing is consumed.
\<close>

definition scan_exponent :: "string \<Rightarrow> int \<times> string" where
  "scan_exponent s =
     (case s of
        [] \<Rightarrow> (0, s)
      | c # t \<Rightarrow>
          if c = CHR ''e'' \<or> c = CHR ''E'' then
            (let (neg, t') =
                   (case t of
                      [] \<Rightarrow> (False, t)
                    | d # t2 \<Rightarrow>
                        if d = CHR ''+'' then (False, t2)
                        else if d = CHR ''-'' then (True, t2)
                        else (False, t));
                 ds = takeWhile is_digit t'
             in if ds = [] then (0, s)
                else ((if neg then - int (digits_value ds) else int (digits_value ds)),
                      dropWhile is_digit t'))
          else (0, s))"

text \<open>
  The longest prefix that is a \<^verbatim>\<open>StrUnsignedDecimalLiteral\<close>: \<^verbatim>\<open>Infinity\<close>, digits with
  an optional fraction, or a point followed by digits, each with an optional exponent.
\<close>

definition scan_unsigned :: "string \<Rightarrow> (literal \<times> string) option" where
  "scan_unsigned s =
     (if take 8 s = ''Infinity'' then Some (Infinity_lit, drop 8 s)
      else
        let ip = takeWhile is_digit s; r1 = dropWhile is_digit s;
            (fp, r2) =
               (case r1 of
                  [] \<Rightarrow> ([], r1)
                | c # t \<Rightarrow>
                    if c = CHR ''.'' \<and> (ip \<noteq> [] \<or> takeWhile is_digit t \<noteq> [])
                    then (takeWhile is_digit t, dropWhile is_digit t)
                    else ([], r1))
        in if ip = [] \<and> fp = [] then None
           else
             let (ex, r3) = scan_exponent r2;
                 m = of_nat (digits_value ip) + of_nat (digits_value fp) * pow10 (- int (length fp))
             in Some (Decimal_lit (m * pow10 ex), r3))"

definition scan_signed :: "string \<Rightarrow> ((bool \<times> literal) \<times> string) option" where
  "scan_signed s =
     (let (neg, t) =
            (case s of
               [] \<Rightarrow> (False, s)
             | c # t \<Rightarrow>
                 if c = CHR ''+'' then (False, t)
                 else if c = CHR ''-'' then (True, t)
                 else (False, s))
      in map_option (\<lambda>(l, r). ((neg, l), r)) (scan_unsigned t))"

definition lit_number :: "bool \<Rightarrow> literal \<Rightarrow> number" where
  "lit_number neg l =
     (case l of
        Infinity_lit \<Rightarrow> (if neg then NegInf else PosInf)
      | Decimal_lit q \<Rightarrow> fl (if neg then - q else q))"

text \<open>Unsigned literals in base 16, 8 and 2 (\<^verbatim>\<open>0x\<close>, \<^verbatim>\<open>0o\<close>, \<^verbatim>\<open>0b\<close>).\<close>

definition radix_digit :: "char \<Rightarrow> nat option" where
  "radix_digit c =
     (let n = (of_char c :: nat)
      in if 48 \<le> n \<and> n \<le> 57 then Some (n - 48)
         else if 97 \<le> n \<and> n \<le> 102 then Some (n - 87)
         else if 65 \<le> n \<and> n \<le> 70 then Some (n - 55)
         else None)"

definition radix_value :: "nat \<Rightarrow> string \<Rightarrow> nat option" where
  "radix_value b ds =
     (if ds \<noteq> [] \<and> list_all (\<lambda>c. case radix_digit c of None \<Rightarrow> False | Some d \<Rightarrow> d < b) ds
      then Some (foldl (\<lambda>acc c. b * acc + the (radix_digit c)) 0 ds)
      else None)"

definition non_decimal :: "string \<Rightarrow> nat option" where
  "non_decimal s =
     (case s of
        z # x # ds \<Rightarrow>
          if z \<noteq> CHR ''0'' then None
          else if x = CHR ''x'' \<or> x = CHR ''X'' then radix_value 16 ds
          else if x = CHR ''o'' \<or> x = CHR ''O'' then radix_value 8 ds
          else if x = CHR ''b'' \<or> x = CHR ''B'' then radix_value 2 ds
          else None
      | _ \<Rightarrow> None)"

text \<open>
  \<^verbatim>\<open>StringToNumber\<close>, the conversion that \<^verbatim>\<open>Number(s)\<close>, \<^verbatim>\<open>isNaN(s)\<close> and the operator
  \<^verbatim>\<open>/\<close> apply to a string: the whole trimmed string must be a numeric literal; the empty
  string is 0.
\<close>

definition StringToNumber :: "string \<Rightarrow> number" where
  "StringToNumber s =
     (let t = trim s
      in if t = [] then Fin 0
         else case non_decimal t of
                Some n \<Rightarrow> fl (of_nat n)
              | None \<Rightarrow>
                  (case scan_signed t of
                     Some ((neg, l), []) \<Rightarrow> lit_number neg l
                   | _ \<Rightarrow> NaN))"


fun ToNumber :: "js_value \<Rightarrow> number" where
  "ToNumber Undefined = NaN"
| "ToNumber Null = Fin 0"
| "ToNumber (Bool b) = (if b then Fin 1 else Fin 0)"
| "ToNumber (Num n) = n"
| "ToNumber (Str s) = StringToNumber s"

text \<open>The global function \<^verbatim>\<open>isNaN\<close> converts its argument to a number first.\<close>

definition isNaN :: "js_value \<Rightarrow> bool" where
  "isNaN v = (ToNumber v = NaN)"

text \<open>
  \<^verbatim>\<open>parseFloat\<close> converts its argument to a string, skips leading white space and reads
  the longest prefix that is a decimal literal. Applied to a number it prints the number
  and reads it back, which returns the number. The strings of \<^verbatim>\<open>undefined\<close>, \<^verbatim>\<open>null\<close>,
  \<^verbatim>\<open>true\<close> and \<^verbatim>\<open>false\<close> have no such prefix.
\<close>

fun parseFloat :: "js_value \<Rightarrow> number" where
  "parseFloat (Num n) = n"
| "parseFloat (Str s) =
     (case scan_signed (dropWhile is_ws s) of
        Some ((neg, l), _) \<Rightarrow> lit_number neg l
      | None \<Rightarrow> NaN)"
| "parseFloat _ = NaN"

subsection \<open>Printing a number\<close>

text \<open>
  \<^verbatim>\<open>Number::toString\<close> prints a finite non-zero number with the fewest digits that read
  back as the same number. That digit generation is not part of this repository; the
  function \<open>ts\<close>, which prints a positive finite number, is a parameter of the model. It is
  consulted only when a string meets a number under \<^verbatim>\<open>+\<close> and when \<^verbatim>\<open>toFixed\<close> is given
  a magnitude of at least \<open>10\<^sup>2\<^sup>1\<close>.
\<close>

definition Number_toString :: "(rat \<Rightarrow> string) \<Rightarrow> number \<Rightarrow> string" where
  "Number_toString ts x =
     (case x of
        NaN \<Rightarrow> ''NaN''
      | PosInf \<Rightarrow> ''Infinity''
      | NegInf \<Rightarrow> ''-Infinity''
      | Fin q \<Rightarrow> if q = 0 then ''0'' else if q < 0 then ''-'' @ ts (- q) else ts q)"

fun ToString :: "(rat \<Rightarrow> string) \<Rightarrow> js_value \<Rightarrow> string" where
  "ToString ts Undefined = ''undefined''"
| "ToString ts Null = ''null''"
| "ToString ts (Bool b) = (if b then ''true'' else ''false'')"
| "ToString ts (Num n) = Number_toString ts n"
| "ToString ts (Str s) = s"

text \<open>The operator \<^verbatim>\<open>+\<close>: concatenation as soon as one operand is a string.\<close>

definition is_Str :: "js_value \<Rightarrow> bool" where
  "is_Str v = (case v of Str _ \<Rightarrow> True | _ \<Rightarrow> False)"

definition js_add :: "(rat \<Rightarrow> string) \<Rightarrow> js_value \<Rightarrow> js_value \<Rightarrow> js_value" where
  "js_add ts a b =
     (if is_Str a \<or> is_Str b then Str (ToString ts a @ ToString ts b)
      else Num (num_add (ToNumber a) (ToNumber b)))"

definition digit_char :: "nat \<Rightarrow> char" where
  "digit_char d = char_of (48 + d)"

fun dec_digits :: "nat \<Rightarrow> string" where
  "dec_digits n =
     (if n < 10 then [digit_char n] else dec_digits (n div 10) @ [digit_char (n mod 10)])"

declare dec_digits.simps [simp del]

text \<open>
  \<^verbatim>\<open>Number.prototype.toFixed(f)\<close>: a number that is not finite is printed by
  \<^verbatim>\<open>Number::toString\<close>, and so is one of magnitude \<open>10\<^sup>2\<^sup>1\<close> or more. Otherwise the integer
  \<open>n\<close> nearest to \<open>\<bar>x\<bar> * 10\<^sup>f\<close> (the larger one of two) is printed with \<open>f\<close> digits after
  the point, behind a minus sign when \<open>x < 0\<close>.
\<close>

definition toFixed :: "(rat \<Rightarrow> string) \<Rightarrow> number \<Rightarrow> nat \<Rightarrow> string" where
  "toFixed ts x f =
     (case x of
        Fin q \<Rightarrow>
          (let s = (if q < 0 then ''-'' else []); a = \<bar>q\<bar>
           in if 10 ^ 21 \<le> a then s @ Number_toString ts (Fin a)
              else
                let n = nat \<lfloor>a * 10 ^ f + 1 / 2\<rfloor>;
                    m = dec_digits n;
                    m' = (if f \<noteq> 0 \<and> length m \<le> f
                          then replicate (f + 1 - length m) CHR ''0'' @ m else m)
                in if f \<noteq> 0
                   then s @ take (length m' - f) m' @ ''.'' @ drop (length m' - f) m'
                   else s @ m')
      | _ \<Rightarrow> Number_toString ts x)"

section \<open>The lodash functions that the component calls\<close>

text \<open>
  \<^verbatim>\<open>baseSum\<close> skips \<^verbatim>\<open>undefined\<close> elements and adds the others with \<^verbatim>\<open>+\<close>, from the left;
  its result is \<^verbatim>\<open>undefined\<close> when nothing was added. \<^verbatim>\<open>_.mean\<close> is \<^verbatim>\<open>NaN\<close> on an empty
  array and otherwise the sum divided by the length.
\<close>

definition baseSum :: "(rat \<Rightarrow> string) \<Rightarrow> js_value list \<Rightarrow> js_value" where
  "baseSum ts array =
     foldl (\<lambda>result current.
              if current \<noteq> Undefined
              then (if result = Undefined then current else js_add ts result current)
              else result)
       Undefined array"

definition lodash_mean :: "(rat \<Rightarrow> string) \<Rightarrow> js_value list \<Rightarrow> number" where
  "lodash_mean ts array =
     (if length array = 0 then NaN
      else num_div_length (ToNumber (baseSum ts array)) (length array))"

text \<open>
  \<^verbatim>\<open>baseExtremum\<close> on an array of numbers: the first element that is not \<^verbatim>\<open>NaN\<close> starts
  the search, and a later element replaces the current one when the comparator holds.
  The result is \<^verbatim>\<open>undefined\<close> (\<open>None\<close>) when no element qualified.
\<close>

definition baseExtremum :: "number list \<Rightarrow> (number \<Rightarrow> number \<Rightarrow> bool) \<Rightarrow> number option" where
  "baseExtremum array comparator =
     foldl (\<lambda>computed current.
              if (case computed of None \<Rightarrow> current \<noteq> NaN | Some c \<Rightarrow> comparator current c)
              then Some current else computed)
       None array"

definition lodash_max :: "number list \<Rightarrow> number option" where
  "lodash_max array = (if array \<noteq> [] then baseExtremum array num_gt else None)"

definition lodash_min :: "number list \<Rightarrow> number option" where
  "lodash_min array = (if array \<noteq> [] then baseExtremum array num_lt else None)"

text \<open>
  \<^verbatim>\<open>_.groupBy\<close> builds an object whose keys are the values of the iteratee, each with the
  array of its elements in their order; the object is the list of its properties in
  creation order.
\<close>

definition groupBy :: "'a list \<Rightarrow> ('a \<Rightarrow> string) \<Rightarrow> (string \<times> 'a list) list" where
  "groupBy collection iteratee =
     foldl (\<lambda>result v.
              let key = iteratee v
              in if key \<in> set (map fst result)
                 then map (\<lambda>(k, vs). if k = key then (k, vs @ [v]) else (k, vs)) result
                 else result @ [(key, [v])])
       [] collection"

text \<open>
  \<^verbatim>\<open>Object.entries\<close> lists the keys that are array indices first, in ascending numeric
  order, then the other keys in creation order.
\<close>

definition is_array_index :: "string \<Rightarrow> bool" where
  "is_array_index k =
     (k \<noteq> [] \<and> list_all is_digit k \<and> (k = ''0'' \<or> hd k \<noteq> CHR ''0'')
      \<and> digits_value k \<le> 4294967294)"

definition Object_entries :: "(string \<times> 'a) list \<Rightarrow> (string \<times> 'a) list" where
  "Object_entries obj =
     sort_key (\<lambda>(k, v). digits_value k) (filter (\<lambda>(k, v). is_array_index k) obj)
     @ filter (\<lambda>(k, v). \<not> is_array_index k) obj"

text \<open>\<^verbatim>\<open>Array.prototype.indexOf\<close>: the first position of the element, or \<open>-1\<close>.\<close>

fun indexOf :: "'a list \<Rightarrow> 'a \<Rightarrow> int" where
  "indexOf [] x = - 1"
| "indexOf (y # ys) x =
     (if y = x then 0 else let i = indexOf ys x in if i < 0 then - 1 else i + 1)"

text \<open>\<^verbatim>\<open>_.sortBy\<close> is a stable sort in ascending order of the iteratee.\<close>

definition sortBy :: "'a list \<Rightarrow> ('a \<Rightarrow> int) \<Rightarrow> 'a list" where
  "sortBy collection iteratee = sort_key iteratee collection"

text \<open>
  \<^verbatim>\<open>Array.prototype.slice(start)\<close>: a negative start counts from the end, and the start
  is clamped to the array.
\<close>

definition slice :: "'a list \<Rightarrow> int \<Rightarrow> 'a list" where
  "slice xs start =
     (let len = int (length xs);
          k = (if start < 0 then max (len + start) 0 else min start len)
      in drop (nat k) xs)"

section \<open>The component MoonBitcoinAnalysis\<close>

subsection \<open>Data\<close>

text \<open>
  A \<^verbatim>\<open>Date\<close> object is its time value in milliseconds since the epoch; \<open>None\<close> is an
  invalid date, whose time value is \<^verbatim>\<open>NaN\<close>. The component reads the \<^verbatim>\<open>date\<close> property
  of a row only as \<^verbatim>\<open>new Date(row.date)\<close>, so the field \<open>date\<close> of a row holds that
  object. The property \<^verbatim>\<open>phase\<close> is read only by \<^verbatim>\<open>=== 'New Moon'\<close> and as the grouping
  key of \<^verbatim>\<open>_.groupBy\<close>; the field holds the key, which for a string is the string itself.
\<close>

type_synonym Date = "int option"

record price_row =
  date :: Date
  price_range_percent :: js_value

record moon_row = price_row +
  phase :: string

text \<open>
  The objects of \<^verbatim>\<open>defaultData\<close> have no property \<^verbatim>\<open>periodAvg\<close>; those of
  \<^verbatim>\<open>processed\<close>, \<^verbatim>\<open>mergedData\<close> and \<^verbatim>\<open>sortedData\<close> have it.
\<close>

record phase_stats =
  phase :: string
  avgRange :: string
  maxRange :: string
  minRange :: string
  count :: nat

record phase_summary = phase_stats +
  periodAvg :: string

text \<open>
  The React state that \<^verbatim>\<open>processData\<close> reads and writes. \<^verbatim>\<open>selectedPeriod\<close> is 12 at
  first and is set only from the options of the selector, which are the members of
  \<^verbatim>\<open>periods\<close>: it is a count of cycles, and \<^verbatim>\<open>-selectedPeriod - 1\<close> is a negative index.
\<close>

record state =
  data :: "moon_row list"
  bitcoinData :: "price_row list"
  processedData :: "phase_summary list"
  periodAverage :: number
  selectedPeriod :: nat

definition periods :: "nat list" where
  "periods = [1, 3, 6, 12, 24, 36, 48, 60, 72, 84]"

definition phaseOrder :: "string list" where
  "phaseOrder = [''New Moon'', ''First Quarter'', ''Full Moon'', ''Last Quarter'']"

text \<open>The state of the component when it is mounted.\<close>

definition initial_state :: state where
  "initial_state =
     \<lparr>data = [], bitcoinData = [], processedData = [], periodAverage = Fin 0,
      selectedPeriod = 12\<rparr>"

text \<open>
  The only operation of \<^verbatim>\<open>processData\<close> that can throw is a method call on
  \<^verbatim>\<open>undefined\<close>, which \<^verbatim>\<open>_.max\<close> and \<^verbatim>\<open>_.min\<close> may return.
\<close>

datatype error = TypeError

definition call_toFixed :: "(rat \<Rightarrow> string) \<Rightarrow> number option \<Rightarrow> nat \<Rightarrow> error + string" where
  "call_toFixed ts v f = (case v of None \<Rightarrow> Inl TypeError | Some x \<Rightarrow> Inr (toFixed ts x f))"

text \<open>\<^verbatim>\<open>Array.prototype.map\<close> with a callback that may throw: the first throw ends it.\<close>

fun map_throwing :: "('a \<Rightarrow> error + 'b) \<Rightarrow> 'a list \<Rightarrow> error + 'b list" where
  "map_throwing f [] = Inr []"
| "map_throwing f (x # xs) =
     (case f x of
        Inl e \<Rightarrow> Inl e
      | Inr y \<Rightarrow> (case map_throwing f xs of Inl e \<Rightarrow> Inl e | Inr ys \<Rightarrow> Inr (y # ys)))"

text \<open>The comparison \<^verbatim>\<open>>=\<close> of two dates compares their time values.\<close>

definition date_ge :: "Date \<Rightarrow> Date \<Rightarrow> bool" where
  "date_ge a b = (case (a, b) of (Some x, Some y) \<Rightarrow> y \<le> x | _ \<Rightarrow> False)"

subsection \<open>processData\<close>

definition newMoons :: "moon_row list \<Rightarrow> Date list" where
  "newMoons d = map date (filter (\<lambda>row. moon_row.phase row = ''New Moon'') d)"

definition relevantNewMoons :: "moon_row list \<Rightarrow> nat \<Rightarrow> Date list" where
  "relevantNewMoons d p = slice (newMoons d) (- int p - 1)"

text \<open>
  \<^verbatim>\<open>new Date(relevantNewMoons[0])\<close>: a copy of the first date, or an invalid date when
  the array is empty and the element is \<^verbatim>\<open>undefined\<close>.
\<close>

definition startDate :: "moon_row list \<Rightarrow> nat \<Rightarrow> Date" where
  "startDate d p = (case relevantNewMoons d p of [] \<Rightarrow> None | x # _ \<Rightarrow> x)"

definition relevantMoonData :: "moon_row list \<Rightarrow> nat \<Rightarrow> moon_row list" where
  "relevantMoonData d p = filter (\<lambda>row. date_ge (date row) (startDate d p)) d"

definition relevantBitcoinData :: "moon_row list \<Rightarrow> price_row list \<Rightarrow> nat \<Rightarrow> price_row list" where
  "relevantBitcoinData d b p = filter (\<lambda>row. date_ge (date row) (startDate d p)) b"

definition periodMean :: "(rat \<Rightarrow> string) \<Rightarrow> moon_row list \<Rightarrow> price_row list \<Rightarrow> nat \<Rightarrow> number" where
  "periodMean ts d b p =
     lodash_mean ts
       (filter (\<lambda>range. \<not> isNaN range)
          (map (\<lambda>entry. price_range_percent entry) (relevantBitcoinData d b p)))"

definition defaultData :: "phase_stats list" where
  "defaultData =
     map (\<lambda>ph. \<lparr>phase = ph, avgRange = ''0.00'', maxRange = ''0.00'', minRange = ''0.00'',
                count = 0\<rparr>)
       phaseOrder"

definition groupedData :: "moon_row list \<Rightarrow> nat \<Rightarrow> (string \<times> moon_row list) list" where
  "groupedData d p = groupBy (relevantMoonData d p) moon_row.phase"

definition validRanges :: "moon_row list \<Rightarrow> number list" where
  "validRanges entries =
     filter (\<lambda>range. \<not> isNaN (Num range))
       (map (\<lambda>entry. parseFloat (price_range_percent entry)) entries)"

text \<open>
  The callback of \<^verbatim>\<open>Object.entries(groupedData).map\<close>, for one phase name and its rows.
  The three guards \<^verbatim>\<open>validRanges.length ? ... : '0.00'\<close> are evaluated in the order of the
  object literal.
\<close>

definition processed_item ::
  "(rat \<Rightarrow> string) \<Rightarrow> number \<Rightarrow> string \<times> moon_row list \<Rightarrow> error + phase_summary" where
  "processed_item ts pm pe =
     (let ph = fst pe; entries = snd pe; vr = validRanges entries;
          avgR = (if length vr \<noteq> 0 then toFixed ts (lodash_mean ts (map Num vr)) 2 else ''0.00'')
      in case (if length vr \<noteq> 0 then call_toFixed ts (lodash_max vr) 2 else Inr ''0.00'') of
           Inl e \<Rightarrow> Inl e
         | Inr maxR \<Rightarrow>
             (case (if length vr \<noteq> 0 then call_toFixed ts (lodash_min vr) 2 else Inr ''0.00'') of
                Inl e \<Rightarrow> Inl e
              | Inr minR \<Rightarrow>
                  Inr \<lparr>phase = ph, avgRange = avgR, maxRange = maxR, minRange = minR,
                       count = length vr, periodAvg = toFixed ts pm 2\<rparr>))"

definition processed ::
  "(rat \<Rightarrow> string) \<Rightarrow> number \<Rightarrow> (string \<times> moon_row list) list \<Rightarrow> error + phase_summary list" where
  "processed ts pm grouped = map_throwing (processed_item ts pm) (Object_entries grouped)"

text \<open>
  \<^verbatim>\<open>{...processedItem || defaultItem, periodAvg: periodMean.toFixed(2)}\<close>: the found
  object, or the default one when \<^verbatim>\<open>find\<close> returned \<^verbatim>\<open>undefined\<close>, with the property
  \<^verbatim>\<open>periodAvg\<close> set.
\<close>

definition mergedData ::
  "(rat \<Rightarrow> string) \<Rightarrow> number \<Rightarrow> phase_summary list \<Rightarrow> phase_summary list" where
  "mergedData ts pm pr =
     map (\<lambda>defaultItem.
            case find (\<lambda>item. phase item = phase defaultItem) pr of
              Some processedItem \<Rightarrow> processedItem\<lparr>periodAvg := toFixed ts pm 2\<rparr>
            | None \<Rightarrow>
                \<lparr>phase = phase defaultItem, avgRange = avgRange defaultItem,
                 maxRange = maxRange defaultItem, minRange = minRange defaultItem,
                 count = count defaultItem, periodAvg = toFixed ts pm 2\<rparr>)
       defaultData"

definition sortedData :: "phase_summary list \<Rightarrow> phase_summary list" where
  "sortedData merged = sortBy merged (\<lambda>item. indexOf phaseOrder (phase item))"

text \<open>
  \<^verbatim>\<open>processData\<close> takes the state to the state after its two setter calls, or to the
  error it throws. With an empty dataset it returns before the first setter.
\<close>

definition processData :: "(rat \<Rightarrow> string) \<Rightarrow> state \<Rightarrow> error + state" where
  "processData ts st =
     (if length (data st) = 0 \<or> length (bitcoinData st) = 0 then Inr st
      else
        let pm = periodMean ts (data st) (bitcoinData st) (selectedPeriod st);
            st1 = st\<lparr>periodAverage := ToNumber (Str (toFixed ts pm 2))\<rparr>
        in case processed ts pm (groupedData (data st) (selectedPeriod st)) of
             Inl e \<Rightarrow> Inl e
           | Inr pr \<Rightarrow> Inr (st1\<lparr>processedData := sortedData (mergedData ts pm pr)\<rparr>))"

subsection \<open>Calendar dates\<close>

text \<open>
  A date-only string \<^verbatim>\<open>YYYY-MM-DD\<close> denotes midnight UTC of that day. The day number
  is the one of the proleptic Gregorian calendar, day 0 being 1970-01-01.
\<close>

definition days_from_civil :: "int \<Rightarrow> int \<Rightarrow> int \<Rightarrow> int" where
  "days_from_civil y m d =
     (let y' = (if m \<le> 2 then y - 1 else y);
          era = y' div 400;
          yoe = y' - era * 400;
          doy = (153 * (if 2 < m then m - 3 else m + 9) + 2) div 5 + d - 1;
          doe = yoe * 365 + yoe div 4 - yoe div 100 + doy
      in era * 146097 + doe - 719468)"

definition utc_date :: "int \<Rightarrow> int \<Rightarrow> int \<Rightarrow> Date" where
  "utc_date y m d = Some (days_from_civil y m d * 86400000)"

section \<open>Reference notions and example inputs\<close>

text \<open>
  A list of dates is in ascending order when every date is valid and the time values
  ascend.
\<close>

definition ascending_dates :: "Date list \<Rightarrow> bool" where
  "ascending_dates ds = (list_all (\<lambda>d. d \<noteq> None) ds \<and> sorted (map the ds))"

text \<open>
  The window start as the specification words it: the New Moon dates are sorted in
  ascending order, the last \<open>periodCycles + 1\<close> of them are selected, and the start is the
  earliest of the selected dates.
\<close>

definition spec_window_start :: "moon_row list \<Rightarrow> nat \<Rightarrow> Date" where
  "spec_window_start d p =
     (let boundaries = sort (List.map_filter (\<lambda>x. x) (newMoons d));
          selected = slice boundaries (- int p - 1)
      in if selected = [] then None else Some (Min (set selected)))"

text \<open>
  The period mean as the specification words it: the mean of the prices of the window,
  excluding every price that is absent or not a valid number. A valid number is a price
  that is a number other than \<^verbatim>\<open>NaN\<close>; \<^verbatim>\<open>null\<close>, \<^verbatim>\<open>undefined\<close>, a boolean and a string
  are not.
\<close>

definition is_valid_number :: "js_value \<Rightarrow> bool" where
  "is_valid_number v = (case v of Num n \<Rightarrow> n \<noteq> NaN | _ \<Rightarrow> False)"

definition spec_period_mean ::
  "(rat \<Rightarrow> string) \<Rightarrow> moon_row list \<Rightarrow> price_row list \<Rightarrow> nat \<Rightarrow> number" where
  "spec_period_mean ts d b p =
     lodash_mean ts
       (filter is_valid_number
          (map (\<lambda>entry. price_range_percent entry) (relevantBitcoinData d b p)))"

text \<open>
  The examples contain no string among the prices and no magnitude of \<open>10\<^sup>2\<^sup>1\<close> or more,
  so that the printer of \<^verbatim>\<open>Number::toString\<close> is never consulted. Where a closed term is
  wanted they are run with a printer that prints nothing.
\<close>

definition no_digits :: "rat \<Rightarrow> string" where
  "no_digits q = []"

definition moon :: "Date \<Rightarrow> string \<Rightarrow> js_value \<Rightarrow> moon_row" where
  "moon d ph v = \<lparr>date = d, price_range_percent = v, moon_row.phase = ph\<rparr>"

definition price :: "Date \<Rightarrow> js_value \<Rightarrow> price_row" where
  "price d v = \<lparr>date = d, price_range_percent = v\<rparr>"

text \<open>The scenario of the specification: one lunar cycle of January 2024.\<close>

definition scenario_moon :: "moon_row list" where
  "scenario_moon =
     [moon (utc_date 2024 1 1) ''New Moon'' (Num (Fin 2)),
      moon (utc_date 2024 1 8) ''First Quarter'' (Num (Fin 3)),
      moon (utc_date 2024 1 15) ''Full Moon'' (Num (Fin 1)),
      moon (utc_date 2024 1 23) ''Last Quarter'' (Num (Fin 4)),
      moon (utc_date 2024 1 31) ''New Moon'' (Num (Fin (5 / 2)))]"

definition scenario_price :: "price_row list" where
  "scenario_price =
     [price (utc_date 2024 1 1) (Num (Fin 2)),
      price (utc_date 2024 1 8) (Num (Fin 3)),
      price (utc_date 2024 1 15) (Num (Fin 1)),
      price (utc_date 2024 1 23) (Num (Fin 4)),
      price (utc_date 2024 1 31) (Num (Fin (5 / 2)))]"

definition scenario_state :: state where
  "scenario_state =
     initial_state\<lparr>data := scenario_moon, bitcoinData := scenario_price, selectedPeriod := 1\<rparr>"

text \<open>
  Two cycles with a row of a fifth phase name and without any Last Quarter row; the
  Full Moon cell is empty.
\<close>

definition sparse_moon :: "moon_row list" where
  "sparse_moon =
     [moon (utc_date 2024 1 1) ''New Moon'' (Num (Fin 2)),
      moon (utc_date 2024 1 8) ''Waxing Gibbous'' (Num (Fin 6)),
      moon (utc_date 2024 1 15) ''Full Moon'' Null,
      moon (utc_date 2024 1 31) ''New Moon'' (Num (Fin 3)),
      moon (utc_date 2024 2 7) ''First Quarter'' (Num (Fin 1))]"

definition sparse_state :: state where
  "sparse_state =
     initial_state\<lparr>data := sparse_moon, bitcoinData := scenario_price, selectedPeriod := 3\<rparr>"

text \<open>A state after a computation whose price dataset has then been emptied.\<close>

definition published_state :: state where
  "published_state =
     \<lparr>data = scenario_moon, bitcoinData = [],
      processedData =
        [\<lparr>phase = ''New Moon'', avgRange = ''2.25'', maxRange = ''2.50'', minRange = ''2.00'',
          count = 2, periodAvg = ''2.50''\<rparr>],
      periodAverage = Fin (5 / 2), selectedPeriod = 6\<rparr>"

text \<open>A moon dataset without any New Moon row.\<close>

definition moonless_state :: state where
  "moonless_state =
     initial_state
       \<lparr>data := [moon (utc_date 2024 1 8) ''First Quarter'' (Num (Fin 3)),
                 moon (utc_date 2024 1 15) ''Full Moon'' (Num (Fin 1))],
        bitcoinData := scenario_price, selectedPeriod := 1\<rparr>"

text \<open>New Moon rows that are not in date order.\<close>

definition unordered_moon :: "moon_row list" where
  "unordered_moon =
     [moon (utc_date 2024 1 31) ''New Moon'' (Num (Fin (5 / 2))),
      moon (utc_date 2024 1 1) ''New Moon'' (Num (Fin 2))]"

text \<open>A price dataset with an empty cell, which the parser delivers as \<^verbatim>\<open>null\<close>.\<close>

definition empty_cell_state :: state where
  "empty_cell_state =
     initial_state
       \<lparr>data := scenario_moon,
        bitcoinData := [price (utc_date 2024 1 1) (Num (Fin 2)), price (utc_date 2024 1 8) Null],
        selectedPeriod := 1\<rparr>"


section \<open>Properties of the library functions\<close>

lemma isNaN_Num [simp]: "isNaN (Num r) = (r = NaN)"
  by (simp add: isNaN_def)

lemma validRanges_no_NaN: "NaN \<notin> set (validRanges entries)"
  by (simp add: validRanges_def)

lemma baseExtremum_step_Some:
  "\<exists>m. foldl (\<lambda>computed current.
              if (case computed of None \<Rightarrow> current \<noteq> NaN | Some c \<Rightarrow> cmp current c)
              then Some current else computed) (Some c0) xs = Some m"
  by (induction xs arbitrary: c0) auto

lemma baseExtremum_Some:
  assumes "xs \<noteq> []" and "NaN \<notin> set xs"
  shows "\<exists>m. baseExtremum xs cmp = Some m"
proof (cases xs)
  case Nil
  with assms show ?thesis by simp
next
  case (Cons x rest)
  with assms have "x \<noteq> NaN" by auto
  with Cons show ?thesis
    using baseExtremum_step_Some [of cmp x rest] by (simp add: baseExtremum_def)
qed

lemma lodash_max_Some: "xs \<noteq> [] \<Longrightarrow> NaN \<notin> set xs \<Longrightarrow> \<exists>m. lodash_max xs = Some m"
  by (simp add: lodash_max_def baseExtremum_Some)

lemma lodash_min_Some: "xs \<noteq> [] \<Longrightarrow> NaN \<notin> set xs \<Longrightarrow> \<exists>m. lodash_min xs = Some m"
  by (simp add: lodash_min_def baseExtremum_Some)

lemma map_throwing_total:
  "(\<And>x. x \<in> set xs \<Longrightarrow> f x = Inr (g x)) \<Longrightarrow> map_throwing f xs = Inr (map g xs)"
  by (induction xs) auto

lemma groupBy_snoc:
  "groupBy (xs @ [v]) key =
     (let result = groupBy xs key; k = key v
      in if k \<in> set (map fst result)
         then map (\<lambda>(k', vs). if k' = k then (k', vs @ [v]) else (k', vs)) result
         else result @ [(k, [v])])"
  by (simp add: groupBy_def Let_def)

lemma groupBy_Nil [simp]: "groupBy [] key = []"
  by (simp add: groupBy_def)

lemma map_fst_group_update:
  "map fst (map (\<lambda>(k', vs). if k' = k then (k', vs @ [v]) else (k', vs)) result) = map fst result"
  by (induction result) auto

lemma groupBy_keys: "set (map fst (groupBy xs key)) = key ` set xs"
proof (induction xs rule: rev_induct)
  case Nil
  show ?case by simp
next
  case (snoc v xs)
  show ?case
  proof (cases "key v \<in> set (map fst (groupBy xs key))")
    case True
    then have "map fst (groupBy (xs @ [v]) key) = map fst (groupBy xs key)"
      by (auto simp add: groupBy_snoc Let_def split: prod.splits)
    with snoc True show ?thesis by auto
  next
    case False
    then have "groupBy (xs @ [v]) key = groupBy xs key @ [(key v, [v])]"
      by (simp add: groupBy_snoc Let_def del: set_map)
    with snoc show ?thesis by auto
  qed
qed

lemma groupBy_distinct: "distinct (map fst (groupBy xs key))"
proof (induction xs rule: rev_induct)
  case Nil
  show ?case by simp
next
  case (snoc v xs)
  show ?case
  proof (cases "key v \<in> set (map fst (groupBy xs key))")
    case True
    then have "map fst (groupBy (xs @ [v]) key) = map fst (groupBy xs key)"
      by (auto simp add: groupBy_snoc Let_def split: prod.splits)
    with snoc show ?thesis by simp
  next
    case False
    then have "groupBy (xs @ [v]) key = groupBy xs key @ [(key v, [v])]"
      by (simp add: groupBy_snoc Let_def del: set_map)
    with snoc False show ?thesis by simp
  qed
qed

lemma groupBy_members:
  "(k, vs) \<in> set (groupBy xs key) \<Longrightarrow> vs = filter (\<lambda>x. key x = k) xs"
proof (induction xs arbitrary: k vs rule: rev_induct)
  case Nil
  then show ?case by simp
next
  case (snoc v xs)
  show ?case
  proof (cases "key v \<in> set (map fst (groupBy xs key))")
    case True
    then have eq: "groupBy (xs @ [v]) key =
        map (\<lambda>(k', vs). if k' = key v then (k', vs @ [v]) else (k', vs)) (groupBy xs key)"
      by (simp add: groupBy_snoc Let_def del: set_map)
    from snoc.prems obtain k' vs' where in_old: "(k', vs') \<in> set (groupBy xs key)"
      and upd: "(k, vs) = (if k' = key v then (k', vs' @ [v]) else (k', vs'))"
      unfolding eq by auto
    from snoc.IH [OF in_old] have vs': "vs' = filter (\<lambda>x. key x = k') xs" .
    from upd vs' show ?thesis by (auto split: if_splits)
  next
    case False
    then have eq: "groupBy (xs @ [v]) key = groupBy xs key @ [(key v, [v])]"
      by (simp add: groupBy_snoc Let_def del: set_map)
    from snoc.prems have "(k, vs) \<in> set (groupBy xs key) \<or> (k, vs) = (key v, [v])"
      unfolding eq by auto
    then show ?thesis
    proof
      assume old: "(k, vs) \<in> set (groupBy xs key)"
      then have "k \<in> set (map fst (groupBy xs key))" by force
      with False have "key v \<noteq> k" by auto
      with snoc.IH [OF old] show ?thesis by simp
    next
      assume new: "(k, vs) = (key v, [v])"
      have "key v \<notin> key ` set xs" using False groupBy_keys [of xs key] by simp
      then have "filter (\<lambda>x. key x = key v) xs = []"
        by (metis (mono_tags, lifting) filter_False image_eqI)
      with new show ?thesis by simp
    qed
  qed
qed

lemma Object_entries_set [simp]: "set (Object_entries obj) = set obj"
  by (auto simp: Object_entries_def)

lemma Object_entries_distinct:
  assumes "distinct (map fst obj)"
  shows "distinct (map fst (Object_entries obj))"
proof -
  from assms have d: "distinct obj" and inj: "inj_on fst (set obj)"
    by (simp_all add: distinct_map)
  have "distinct (Object_entries obj)"
    using d by (auto simp: Object_entries_def)
  moreover have "inj_on fst (set (Object_entries obj))"
    using inj by simp
  ultimately show ?thesis by (simp add: distinct_map)
qed

lemma find_by_key:
  assumes "distinct (map fst xs)" and "(k, v) \<in> set xs"
  shows "find (\<lambda>p. fst p = k) xs = Some (k, v)"
  using assms by (induction xs) (auto simp: rev_image_eqI)

lemma find_by_key_None:
  "k \<notin> fst ` set xs \<Longrightarrow> find (\<lambda>p. fst p = k) xs = None"
  by (induction xs) auto

lemma find_map_key:
  assumes "\<And>p. p \<in> set xs \<Longrightarrow> h (g p) = fst p"
  shows "find (\<lambda>item. h item = k) (map g xs) = map_option g (find (\<lambda>p. fst p = k) xs)"
  using assms by (induction xs) auto

section \<open>A closed form of processData\<close>

lemma processed_item_eq:
  "processed_item ts pm pe =
     Inr \<lparr>phase = fst pe,
          avgRange = (if validRanges (snd pe) \<noteq> []
                      then toFixed ts (lodash_mean ts (map Num (validRanges (snd pe)))) 2
                      else ''0.00''),
          maxRange = (if validRanges (snd pe) \<noteq> []
                      then toFixed ts (the (lodash_max (validRanges (snd pe)))) 2 else ''0.00''),
          minRange = (if validRanges (snd pe) \<noteq> []
                      then toFixed ts (the (lodash_min (validRanges (snd pe)))) 2 else ''0.00''),
          count = length (validRanges (snd pe)),
          periodAvg = toFixed ts pm 2\<rparr>"
proof (cases "validRanges (snd pe) = []")
  case True
  then show ?thesis by (simp add: processed_item_def Let_def)
next
  case False
  obtain mx where mx: "lodash_max (validRanges (snd pe)) = Some mx"
    using lodash_max_Some [OF False validRanges_no_NaN] by blast
  obtain mn where mn: "lodash_min (validRanges (snd pe)) = Some mn"
    using lodash_min_Some [OF False validRanges_no_NaN] by blast
  show ?thesis
    using False by (simp add: processed_item_def Let_def call_toFixed_def mx mn)
qed

lemma processed_item_total:
  "processed_item ts pm pe = Inr (projr (processed_item ts pm pe))"
  by (simp add: processed_item_eq)

lemma phase_processed_item [simp]: "phase (projr (processed_item ts pm pe)) = fst pe"
  by (simp add: processed_item_eq)

lemma periodAvg_processed_item [simp]:
  "periodAvg (projr (processed_item ts pm pe)) = toFixed ts pm 2"
  by (simp add: processed_item_eq)

lemma processed_item_empty:
  "projr (processed_item ts pm (ph, [])) =
     \<lparr>phase = ph, avgRange = ''0.00'', maxRange = ''0.00'', minRange = ''0.00'', count = 0,
      periodAvg = toFixed ts pm 2\<rparr>"
  by (simp add: processed_item_eq validRanges_def)

lemma processed_eq:
  "processed ts pm grouped = Inr (map (\<lambda>pe. projr (processed_item ts pm pe)) (Object_entries grouped))"
  unfolding processed_def by (rule map_throwing_total) (rule processed_item_total)

lemma find_group:
  "find (\<lambda>p. fst p = k) (Object_entries (groupBy rows key)) =
     (if k \<in> key ` set rows then Some (k, filter (\<lambda>x. key x = k) rows) else None)"
proof (cases "k \<in> key ` set rows")
  case True
  then have "k \<in> set (map fst (groupBy rows key))" by (simp only: groupBy_keys)
  then obtain vs where mem: "(k, vs) \<in> set (groupBy rows key)" by auto
  then have vs: "vs = filter (\<lambda>x. key x = k) rows" by (rule groupBy_members)
  have "distinct (map fst (Object_entries (groupBy rows key)))"
    by (rule Object_entries_distinct) (rule groupBy_distinct)
  moreover have "(k, vs) \<in> set (Object_entries (groupBy rows key))" using mem by simp
  ultimately have "find (\<lambda>p. fst p = k) (Object_entries (groupBy rows key)) = Some (k, vs)"
    by (rule find_by_key)
  with True vs show ?thesis by simp
next
  case False
  then have "k \<notin> set (map fst (groupBy rows key))" unfolding groupBy_keys .
  then have "k \<notin> fst ` set (Object_entries (groupBy rows key))" by simp
  then have "find (\<lambda>p. fst p = k) (Object_entries (groupBy rows key)) = None"
    by (rule find_by_key_None)
  with False show ?thesis by simp
qed

lemma find_processed:
  "find (\<lambda>item. phase item = ph)
       (map (\<lambda>pe. projr (processed_item ts pm pe)) (Object_entries (groupBy rows key))) =
     (if ph \<in> key ` set rows
      then Some (projr (processed_item ts pm (ph, filter (\<lambda>x. key x = ph) rows)))
      else None)"
proof -
  have "find (\<lambda>item. phase item = ph)
       (map (\<lambda>pe. projr (processed_item ts pm pe)) (Object_entries (groupBy rows key))) =
     map_option (\<lambda>pe. projr (processed_item ts pm pe))
       (find (\<lambda>p. fst p = ph) (Object_entries (groupBy rows key)))"
    by (rule find_map_key) simp
  then show ?thesis by (simp add: find_group)
qed

lemma mergedData_eq:
  assumes "processed ts pm (groupBy rows moon_row.phase) = Inr pr"
  shows "mergedData ts pm pr =
     map (\<lambda>ph. projr (processed_item ts pm (ph, filter (\<lambda>row. moon_row.phase row = ph) rows)))
       phaseOrder"
proof -
  from assms have pr: "pr = map (\<lambda>pe. projr (processed_item ts pm pe))
      (Object_entries (groupBy rows moon_row.phase))"
    by (simp add: processed_eq)
  have entry: "(case find (\<lambda>item. phase item = ph) pr of
              Some processedItem \<Rightarrow> processedItem\<lparr>periodAvg := toFixed ts pm 2\<rparr>
            | None \<Rightarrow>
                \<lparr>phase = ph, avgRange = ''0.00'', maxRange = ''0.00'', minRange = ''0.00'',
                 count = 0, periodAvg = toFixed ts pm 2\<rparr>) =
     projr (processed_item ts pm (ph, filter (\<lambda>row. moon_row.phase row = ph) rows))" for ph
  proof (cases "ph \<in> moon_row.phase ` set rows")
    case True
    then show ?thesis
      unfolding pr find_processed by (simp add: processed_item_eq)
  next
    case False
    then have "filter (\<lambda>row. moon_row.phase row = ph) rows = []"
      by (metis (mono_tags, lifting) filter_False image_eqI)
    with False show ?thesis
      unfolding pr find_processed by (simp add: processed_item_empty)
  qed
  show ?thesis
    unfolding mergedData_def defaultData_def map_map
    by (rule map_cong [OF refl]) (simp add: entry cong: option.case_cong)
qed

lemma indexOf_phaseOrder:
  "map (indexOf phaseOrder) phaseOrder = [0, 1, 2, 3]"
  by (simp add: phaseOrder_def)

lemma sortedData_id:
  assumes "map phase merged = phaseOrder"
  shows "sortedData merged = merged"
proof -
  have "map (\<lambda>item. indexOf phaseOrder (phase item)) merged =
      map (indexOf phaseOrder) (map phase merged)"
    by simp
  also have "\<dots> = [0, 1, 2, 3]" by (simp only: assms indexOf_phaseOrder)
  finally have "sorted (map (\<lambda>item. indexOf phaseOrder (phase item)) merged)" by simp
  then show ?thesis unfolding sortedData_def sortBy_def by (rule sort_key_id_if_sorted)
qed

lemma processData_closed_form:
  assumes "data st \<noteq> []" and "bitcoinData st \<noteq> []"
  shows "processData ts st =
     Inr (st\<lparr>periodAverage :=
               StringToNumber
                 (toFixed ts (periodMean ts (data st) (bitcoinData st) (selectedPeriod st)) 2),
             processedData :=
               map (\<lambda>ph. projr (processed_item ts
                      (periodMean ts (data st) (bitcoinData st) (selectedPeriod st))
                      (ph, filter (\<lambda>row. moon_row.phase row = ph)
                             (relevantMoonData (data st) (selectedPeriod st)))))
                 phaseOrder\<rparr>)"
proof -
  let ?pm = "periodMean ts (data st) (bitcoinData st) (selectedPeriod st)"
  let ?rows = "relevantMoonData (data st) (selectedPeriod st)"
  let ?pr = "map (\<lambda>pe. projr (processed_item ts ?pm pe))
      (Object_entries (groupBy ?rows moon_row.phase))"
  let ?out = "map (\<lambda>ph. projr (processed_item ts ?pm
      (ph, filter (\<lambda>row. moon_row.phase row = ph) ?rows))) phaseOrder"
  have pr: "processed ts ?pm (groupedData (data st) (selectedPeriod st)) = Inr ?pr"
    by (simp add: processed_eq groupedData_def)
  then have merged: "mergedData ts ?pm ?pr = ?out"
    unfolding groupedData_def by (rule mergedData_eq)
  have "map phase ?out = phaseOrder" by (simp add: comp_def)
  then have "sortedData ?out = ?out" by (rule sortedData_id)
  with assms pr merged show ?thesis
    by (simp add: processData_def Let_def)
qed

section \<open>Evaluation of the examples\<close>

lemma floor_rat_numeral_div [simp]:
  "\<lfloor>numeral a / numeral b :: rat\<rfloor> = numeral a div numeral b"
  using floor_divide_of_int_eq [of "numeral a" "numeral b", where ?'a = rat] by simp

lemma digit_char_eval:
  "digit_char 0 = CHR ''0''" "digit_char 1 = CHR ''1''" "digit_char 2 = CHR ''2''"
  "digit_char 3 = CHR ''3''" "digit_char 4 = CHR ''4''" "digit_char 5 = CHR ''5''"
  "digit_char 6 = CHR ''6''" "digit_char 7 = CHR ''7''" "digit_char 8 = CHR ''8''"
  "digit_char 9 = CHR ''9''" "digit_char (Suc 0) = CHR ''1''"
  by (simp_all add: digit_char_def char_of_eq_iff)

lemmas fl_eval = fl_def ilog2_def pow2_def round_half_even_def compute_bitlen Let_def

lemmas toFixed_eval = toFixed_def Number_toString_def Let_def digit_char_eval dec_digits.simps

lemmas parse_eval =
  StringToNumber_def trim_def is_ws_def non_decimal_def scan_signed_def scan_unsigned_def
  scan_exponent_def is_digit_def digits_value_def digit_val_def lit_number_def pow10_def

lemmas window_eval =
  startDate_def relevantNewMoons_def newMoons_def slice_def relevantMoonData_def
  relevantBitcoinData_def date_ge_def utc_date_def days_from_civil_def moon_def price_def

lemmas stats_eval =
  processed_item_eq validRanges_def lodash_mean_def baseSum_def js_add_def is_Str_def
  lodash_max_def lodash_min_def baseExtremum_def num_gt_def periodMean_def isNaN_def

lemma scenario_window:
  "startDate scenario_moon 1 = utc_date 2024 1 1"
  "relevantMoonData scenario_moon 1 = scenario_moon"
  "relevantBitcoinData scenario_moon scenario_price 1 = scenario_price"
  by (simp_all add: scenario_moon_def scenario_price_def window_eval)

lemma scenario_periodMean: "periodMean ts scenario_moon scenario_price 1 = Fin (5 / 2)"
  unfolding periodMean_def scenario_window
  by (simp add: scenario_price_def price_def lodash_mean_def baseSum_def js_add_def is_Str_def
      isNaN_def fl_eval)

lemma scenario_nonempty:
  "data scenario_state \<noteq> []" "bitcoinData scenario_state \<noteq> []"
  by (simp_all add: scenario_state_def scenario_moon_def scenario_price_def)

lemma scenario_fields:
  "data scenario_state = scenario_moon" "bitcoinData scenario_state = scenario_price"
  "selectedPeriod scenario_state = 1"
  by (simp_all add: scenario_state_def)

lemma scenario_result:
  "processData ts scenario_state =
     Inr (scenario_state
       \<lparr>periodAverage := Fin (5 / 2),
        processedData :=
          [\<lparr>phase = ''New Moon'', avgRange = ''2.25'', maxRange = ''2.50'',
            minRange = ''2.00'', count = 2, periodAvg = ''2.50''\<rparr>,
           \<lparr>phase = ''First Quarter'', avgRange = ''3.00'', maxRange = ''3.00'',
            minRange = ''3.00'', count = 1, periodAvg = ''2.50''\<rparr>,
           \<lparr>phase = ''Full Moon'', avgRange = ''1.00'', maxRange = ''1.00'',
            minRange = ''1.00'', count = 1, periodAvg = ''2.50''\<rparr>,
           \<lparr>phase = ''Last Quarter'', avgRange = ''4.00'', maxRange = ''4.00'',
            minRange = ''4.00'', count = 1, periodAvg = ''2.50''\<rparr>]\<rparr>)"
  unfolding processData_closed_form [OF scenario_nonempty] scenario_fields scenario_window
    scenario_periodMean
  by (simp add: phaseOrder_def scenario_moon_def moon_def stats_eval fl_eval toFixed_eval
      parse_eval)

section \<open>The claims\<close>

subsection \<open>The output table\<close>


text \<open>
  C1. For every pair of non-empty datasets and every period, \<^verbatim>\<open>processData\<close> returns
  normally and publishes a table of exactly four entries, whose phases are New Moon,
  First Quarter, Full Moon and Last Quarter in this order, whatever the phases of the
  rows in the window are; a row with another phase name adds no entry.
\<close>

theorem processData_four_phases_in_order:
  assumes "data st \<noteq> []" and "bitcoinData st \<noteq> []"
  shows "\<exists>st'. processData ts st = Inr st' \<and>
    map phase (processedData st') =
      [''New Moon'', ''First Quarter'', ''Full Moon'', ''Last Quarter'']"
  unfolding processData_closed_form [OF assms]
  by (simp add: comp_def phaseOrder_def)

theorem processData_four_phases_in_order_witness:
  "data sparse_state \<noteq> [] \<and> bitcoinData sparse_state \<noteq> [] \<and>
   ''Waxing Gibbous'' \<in> moon_row.phase ` set (data sparse_state) \<and>
   ''Last Quarter'' \<notin> moon_row.phase ` set (data sparse_state) \<and>
   (\<exists>st'. processData no_digits sparse_state = Inr st' \<and>
      map phase (processedData st') =
        [''New Moon'', ''First Quarter'', ''Full Moon'', ''Last Quarter''])"
proof -
  have ne: "data sparse_state \<noteq> []" "bitcoinData sparse_state \<noteq> []"
    by (simp_all add: sparse_state_def sparse_moon_def scenario_price_def)
  have "''Waxing Gibbous'' \<in> moon_row.phase ` set (data sparse_state)"
    and "''Last Quarter'' \<notin> moon_row.phase ` set (data sparse_state)"
    by (simp_all add: sparse_state_def sparse_moon_def moon_def)
  with ne processData_four_phases_in_order [OF ne, of no_digits] show ?thesis by simp
qed

text \<open>
  C6. The scenario: with the five moon rows and the five price rows of January 2024 and
  one cycle selected, the window starts on 2024-01-01 and keeps all five rows of both
  datasets; the period average is 2.5, printed \<^verbatim>\<open>2.50\<close>, and the phase averages are 2.25
  for New Moon with two samples, 3.00 for First Quarter, 1.00 for Full Moon and 4.00 for
  Last Quarter with one sample each.
\<close>

theorem scenario_one_cycle:
  "startDate scenario_moon 1 = utc_date 2024 1 1 \<and>
   relevantMoonData scenario_moon 1 = scenario_moon \<and>
   relevantBitcoinData scenario_moon scenario_price 1 = scenario_price \<and>
   periodMean ts scenario_moon scenario_price 1 = Fin (5 / 2) \<and>
   processData ts scenario_state =
     Inr (scenario_state
       \<lparr>periodAverage := Fin (5 / 2),
        processedData :=
          [\<lparr>phase = ''New Moon'', avgRange = ''2.25'', maxRange = ''2.50'',
            minRange = ''2.00'', count = 2, periodAvg = ''2.50''\<rparr>,
           \<lparr>phase = ''First Quarter'', avgRange = ''3.00'', maxRange = ''3.00'',
            minRange = ''3.00'', count = 1, periodAvg = ''2.50''\<rparr>,
           \<lparr>phase = ''Full Moon'', avgRange = ''1.00'', maxRange = ''1.00'',
            minRange = ''1.00'', count = 1, periodAvg = ''2.50''\<rparr>,
           \<lparr>phase = ''Last Quarter'', avgRange = ''4.00'', maxRange = ''4.00'',
            minRange = ''4.00'', count = 1, periodAvg = ''2.50''\<rparr>]\<rparr>)"
  by (simp only: scenario_window scenario_periodMean scenario_result simp_thms)

text \<open>
  C9. Every entry of the published table whose count is 0 has the fields \<^verbatim>\<open>avgRange\<close>,
  \<^verbatim>\<open>maxRange\<close> and \<^verbatim>\<open>minRange\<close> equal to \<^verbatim>\<open>0.00\<close>; and a canonical phase without any valid
  sample in the window is not dropped: the table has an entry for it, with count 0.
\<close>

theorem zero_count_entries_are_zero:
  assumes "data st \<noteq> []" and "bitcoinData st \<noteq> []"
  shows "\<exists>st'. processData ts st = Inr st' \<and>
    (\<forall>e\<in>set (processedData st').
        count e = 0 \<longrightarrow>
        avgRange e = ''0.00'' \<and> maxRange e = ''0.00'' \<and> minRange e = ''0.00'') \<and>
    (\<forall>ph\<in>set phaseOrder.
        validRanges (filter (\<lambda>row. moon_row.phase row = ph)
          (relevantMoonData (data st) (selectedPeriod st))) = [] \<longrightarrow>
        (\<exists>e\<in>set (processedData st'). phase e = ph \<and> count e = 0))"
proof -
  let ?pm = "periodMean ts (data st) (bitcoinData st) (selectedPeriod st)"
  let ?rows = "\<lambda>ph. filter (\<lambda>row. moon_row.phase row = ph)
      (relevantMoonData (data st) (selectedPeriod st))"
  let ?entry = "\<lambda>ph. projr (processed_item ts ?pm (ph, ?rows ph))"
  obtain st' where st': "processData ts st = Inr st'"
    and out: "processedData st' = map ?entry phaseOrder"
    using processData_closed_form [OF assms, of ts] by simp
  have zero: "avgRange e = ''0.00'' \<and> maxRange e = ''0.00'' \<and> minRange e = ''0.00''"
    if "e \<in> set (processedData st')" and "count e = 0" for e
  proof -
    from that(1) obtain ph where "e = ?entry ph" unfolding out by auto
    with that(2) show ?thesis by (simp add: processed_item_eq split: if_splits)
  qed
  have kept: "\<exists>e\<in>set (processedData st'). phase e = ph \<and> count e = 0"
    if "ph \<in> set phaseOrder" and "validRanges (?rows ph) = []" for ph
  proof -
    from that(1) have "?entry ph \<in> set (processedData st')" unfolding out by simp
    moreover have "phase (?entry ph) = ph \<and> count (?entry ph) = 0"
      using that(2) by (simp add: processed_item_eq)
    ultimately show ?thesis by blast
  qed
  from st' zero kept show ?thesis by blast
qed

theorem zero_count_entries_are_zero_witness:
  "data sparse_state \<noteq> [] \<and> bitcoinData sparse_state \<noteq> [] \<and>
   ''Last Quarter'' \<in> set phaseOrder \<and>
   (\<exists>st'. processData no_digits sparse_state = Inr st' \<and>
      (\<exists>e\<in>set (processedData st').
          phase e = ''Last Quarter'' \<and> count e = 0 \<and>
          avgRange e = ''0.00'' \<and> maxRange e = ''0.00'' \<and> minRange e = ''0.00''))"
proof -
  have ne: "data sparse_state \<noteq> []" "bitcoinData sparse_state \<noteq> []"
    by (simp_all add: sparse_state_def sparse_moon_def scenario_price_def)
  have canonical: "''Last Quarter'' \<in> set phaseOrder"
    by (simp add: phaseOrder_def)
  have none: "validRanges (filter (\<lambda>row. moon_row.phase row = ''Last Quarter'')
      (relevantMoonData (data sparse_state) (selectedPeriod sparse_state))) = []"
    by (simp add: sparse_state_def sparse_moon_def window_eval validRanges_def)
  from zero_count_entries_are_zero [OF ne, of no_digits] canonical none
  obtain st' e where "processData no_digits sparse_state = Inr st'"
    and "e \<in> set (processedData st')" and "phase e = ''Last Quarter''" and "count e = 0"
    and "avgRange e = ''0.00'' \<and> maxRange e = ''0.00'' \<and> minRange e = ''0.00''"
    by blast
  with ne canonical show ?thesis by blast
qed

text \<open>
  C10. When one of the two datasets is empty, \<^verbatim>\<open>processData\<close> returns at once: the
  state, and with it the table and the period average published before, is unchanged.
\<close>

theorem processData_empty_dataset_unchanged:
  assumes "data st = [] \<or> bitcoinData st = []"
  shows "processData ts st = Inr st"
  using assms by (auto simp: processData_def)

theorem processData_empty_dataset_unchanged_witness:
  "(data published_state = [] \<or> bitcoinData published_state = []) \<and>
   processedData published_state \<noteq> [] \<and>
   processData no_digits published_state = Inr published_state"
proof -
  have empty: "data published_state = [] \<or> bitcoinData published_state = []"
    by (simp add: published_state_def)
  moreover have "processedData published_state \<noteq> []"
    by (simp add: published_state_def)
  ultimately show ?thesis
    using processData_empty_dataset_unchanged [OF empty, of no_digits] by simp
qed

subsection \<open>The window\<close>

lemma slice_last:
  "slice xs (- int p - 1) = drop (length xs - min (p + 1) (length xs)) xs"
proof -
  have "nat (max (int (length xs) + (- int p - 1)) 0) = length xs - min (p + 1) (length xs)"
    by arith
  then show ?thesis by (simp add: slice_def Let_def)
qed

lemma startDate_index:
  assumes "newMoons d \<noteq> []"
  shows "startDate d p =
     newMoons d ! (length (newMoons d) - min (p + 1) (length (newMoons d)))"
proof -
  let ?n = "length (newMoons d)"
  let ?k = "?n - min (p + 1) ?n"
  from assms have k: "?k < ?n" by (simp add: min_def)
  then have "drop ?k (newMoons d) = newMoons d ! ?k # drop (Suc ?k) (newMoons d)"
    by (simp add: Cons_nth_drop_Suc)
  then show ?thesis by (simp add: startDate_def relevantNewMoons_def slice_last)
qed

lemma startDate_no_new_moon: "newMoons d = [] \<Longrightarrow> startDate d p = None"
  by (simp add: startDate_def relevantNewMoons_def slice_def)

lemma ascending_dates_Some:
  assumes "ascending_dates ds"
  shows "ds = map Some (map the ds)" and "sorted (map the ds)"
proof -
  from assms have "\<forall>x\<in>set ds. x \<noteq> None" by (simp add: ascending_dates_def list_all_iff)
  then have "map (\<lambda>x. Some (the x)) ds = map (\<lambda>x. x) ds"
    by (intro map_cong) auto
  then show "ds = map Some (map the ds)" by (simp add: comp_def)
  from assms show "sorted (map the ds)" by (simp add: ascending_dates_def)
qed

lemma ascending_dates_filter:
  assumes "ascending_dates (map date rows)"
  shows "ascending_dates (map date (filter P rows))"
proof -
  from assms have "sorted (map (the \<circ> date) rows)"
    by (simp add: ascending_dates_def)
  then have "sorted (map (the \<circ> date) (filter P rows))" by (rule sorted_filter)
  with assms show ?thesis by (simp add: ascending_dates_def list_all_iff)
qed

lemma startDate_antimono:
  assumes asc: "ascending_dates (newMoons d)" and ne: "newMoons d \<noteq> []" and pq: "p \<le> q"
  shows "\<exists>x y. startDate d q = Some x \<and> startDate d p = Some y \<and> x \<le> y"
proof -
  let ?nm = "newMoons d"
  let ?n = "length ?nm"
  let ?kp = "?n - min (p + 1) ?n"
  let ?kq = "?n - min (q + 1) ?n"
  from ne have kp: "?kp < ?n" and kq: "?kq < ?n" by (simp_all add: min_def)
  from pq have le: "?kq \<le> ?kp" by arith
  note some = ascending_dates_Some [OF asc]
  have "?nm ! ?kp = Some (map the ?nm ! ?kp)"
    using kp some(1) by (metis length_map nth_map)
  moreover have "?nm ! ?kq = Some (map the ?nm ! ?kq)"
    using kq some(1) by (metis length_map nth_map)
  moreover have "map the ?nm ! ?kq \<le> map the ?nm ! ?kp"
    using some(2) le kp by (simp add: sorted_iff_nth_mono del: nth_map)
  ultimately show ?thesis
    by (simp add: startDate_index [OF ne])
qed

lemma length_filter_mono:
  "(\<And>x. x \<in> set xs \<Longrightarrow> P x \<Longrightarrow> Q x) \<Longrightarrow> length (filter P xs) \<le> length (filter Q xs)"
  by (induction xs) auto

lemma date_ge_start_mono:
  assumes "ascending_dates (newMoons d)" and "newMoons d \<noteq> []" and "p \<le> q"
    and "date_ge r (startDate d p)"
  shows "date_ge r (startDate d q)"
proof -
  from startDate_antimono [OF assms(1-3)] obtain x y
    where "startDate d q = Some x" "startDate d p = Some y" "x \<le> y" by blast
  with assms(4) show ?thesis by (auto simp: date_ge_def split: option.splits)
qed

lemma sorted_Min_hd:
  assumes "sorted ys" and "ys \<noteq> []"
  shows "Min (set ys) = hd ys"
proof (rule Min_eqI)
  show "finite (set ys)" by simp
  show "hd ys \<in> set ys" using assms(2) by simp
  fix y assume "y \<in> set ys"
  with assms show "hd ys \<le> y" by (cases ys) auto
qed

lemma map_filter_Some: "List.map_filter (\<lambda>x. x) (map Some xs) = xs"
  by (induction xs) simp_all

text \<open>
  C5, as the code has it. The New Moon dates are taken in row order and are not sorted;
  the start date is the first of the last \<open>periodCycles + 1\<close> of them. When the New Moon
  rows are in ascending date order, this is the earliest date among the last
  \<open>periodCycles + 1\<close> New Moon dates, as the specification words the window start.
\<close>

theorem window_start_of_ascending_new_moons:
  "(newMoons d \<noteq> [] \<longrightarrow>
      startDate d p =
        newMoons d ! (length (newMoons d) - min (p + 1) (length (newMoons d)))) \<and>
   (ascending_dates (newMoons d) \<longrightarrow> startDate d p = spec_window_start d p)"
proof (intro conjI impI)
  assume "newMoons d \<noteq> []"
  then show "startDate d p =
      newMoons d ! (length (newMoons d) - min (p + 1) (length (newMoons d)))"
    by (rule startDate_index)
next
  assume asc: "ascending_dates (newMoons d)"
  let ?xs = "map the (newMoons d)"
  let ?k = "length ?xs - min (p + 1) (length ?xs)"
  note some = ascending_dates_Some [OF asc]
  have boundaries: "sort (List.map_filter (\<lambda>x. x) (newMoons d)) = ?xs"
    using some(2) by (subst some(1)) (simp add: map_filter_Some sorted_sort_id del: map_map)
  show "startDate d p = spec_window_start d p"
  proof (cases "newMoons d = []")
    case True
    then show ?thesis
      by (simp add: startDate_no_new_moon spec_window_start_def slice_def)
  next
    case False
    then have k: "?k < length ?xs" by (simp add: min_def)
    then have ne: "drop ?k ?xs \<noteq> []" by simp
    have "sorted (drop ?k ?xs)" using some(2) by (rule sorted_wrt_drop)
    then have "Min (set (drop ?k ?xs)) = hd (drop ?k ?xs)" using ne by (rule sorted_Min_hd)
    also have "\<dots> = ?xs ! ?k" using k by (simp add: hd_drop_conv_nth del: nth_map)
    finally have spec: "spec_window_start d p = Some (?xs ! ?k)"
      using ne by (simp add: spec_window_start_def boundaries slice_last Let_def)
    have "newMoons d ! ?k = Some (?xs ! ?k)"
      using k some(1) by (metis length_map nth_map)
    with spec show ?thesis using startDate_index [OF False, of p] by simp
  qed
qed

theorem window_start_of_ascending_new_moons_witness:
  "newMoons scenario_moon \<noteq> [] \<and> ascending_dates (newMoons scenario_moon) \<and>
   newMoons scenario_moon = [utc_date 2024 1 1, utc_date 2024 1 31] \<and>
   startDate scenario_moon 1 = newMoons scenario_moon ! 0 \<and>
   startDate scenario_moon 1 = utc_date 2024 1 1 \<and>
   spec_window_start scenario_moon 1 = utc_date 2024 1 1"
proof -
  have nm: "newMoons scenario_moon = [utc_date 2024 1 1, utc_date 2024 1 31]"
    by (simp add: scenario_moon_def newMoons_def moon_def)
  have ne: "newMoons scenario_moon \<noteq> []"
    by (simp add: nm)
  have asc: "ascending_dates (newMoons scenario_moon)"
    by (simp add: nm ascending_dates_def utc_date_def days_from_civil_def)
  from window_start_of_ascending_new_moons [of scenario_moon 1] ne asc
  have index: "startDate scenario_moon 1 =
      newMoons scenario_moon ! (length (newMoons scenario_moon)
        - min (1 + 1) (length (newMoons scenario_moon)))"
    and spec: "startDate scenario_moon 1 = spec_window_start scenario_moon 1"
    by blast+
  from index have first: "startDate scenario_moon 1 = newMoons scenario_moon ! 0"
    by (simp add: nm)
  from ne asc nm first scenario_window(1) spec [symmetric] show ?thesis
    by (simp only: simp_thms)
qed

theorem window_start_unordered_counterexample:
  "startDate unordered_moon 1 = utc_date 2024 1 31 \<and>
   spec_window_start unordered_moon 1 = utc_date 2024 1 1 \<and>
   utc_date 2024 1 31 \<noteq> utc_date 2024 1 1"
  by (simp add: unordered_moon_def spec_window_start_def window_eval)

text \<open>
  C7. When both datasets are in ascending date order and the moon dataset has a New
  Moon row, a larger period selects at least as many moon rows and at least as many
  price rows as a smaller one.
\<close>

theorem window_grows_with_period:
  assumes "ascending_dates (map date d)" and "ascending_dates (map date b)"
    and "''New Moon'' \<in> moon_row.phase ` set d" and "p \<le> q"
  shows "length (relevantMoonData d p) \<le> length (relevantMoonData d q) \<and>
    length (relevantBitcoinData d b p) \<le> length (relevantBitcoinData d b q)"
proof -
  have asc: "ascending_dates (newMoons d)"
    unfolding newMoons_def using assms(1) by (rule ascending_dates_filter)
  from assms(3) have ne: "newMoons d \<noteq> []"
    by (auto simp: newMoons_def filter_empty_conv)
  have step: "date_ge r (startDate d p) \<Longrightarrow> date_ge r (startDate d q)" for r
    using asc ne assms(4) by (rule date_ge_start_mono)
  show ?thesis
    unfolding relevantMoonData_def relevantBitcoinData_def
    by (intro conjI length_filter_mono step)
qed

theorem window_grows_with_period_witness:
  "ascending_dates (map date scenario_moon) \<and> ascending_dates (map date scenario_price) \<and>
   ''New Moon'' \<in> moon_row.phase ` set scenario_moon \<and> (0::nat) \<le> 1 \<and>
   length (relevantMoonData scenario_moon 0) = 1 \<and>
   length (relevantMoonData scenario_moon 1) = 5 \<and>
   length (relevantMoonData scenario_moon 0) \<le> length (relevantMoonData scenario_moon 1) \<and>
   length (relevantBitcoinData scenario_moon scenario_price 0)
     \<le> length (relevantBitcoinData scenario_moon scenario_price 1)"
proof -
  have asc: "ascending_dates (map date scenario_moon)"
      "ascending_dates (map date scenario_price)"
    by (simp_all add: ascending_dates_def scenario_moon_def scenario_price_def window_eval)
  have nm: "''New Moon'' \<in> moon_row.phase ` set scenario_moon"
    by (simp add: scenario_moon_def moon_def)
  have sizes: "length (relevantMoonData scenario_moon 0) = 1"
      "length (relevantMoonData scenario_moon 1) = 5"
    by (simp_all add: scenario_moon_def window_eval)
  from window_grows_with_period [OF asc nm, of 0 1] asc nm sizes show ?thesis by simp
qed

subsection \<open>Missing values and the empty window\<close>

lemma toFixed_NaN: "toFixed ts NaN f = ''NaN''"
  by (simp add: toFixed_def Number_toString_def)

lemma StringToNumber_NaN: "StringToNumber ''NaN'' = NaN"
  by (simp add: parse_eval)

lemma no_new_moon_closed_form:
  assumes "data st \<noteq> []" and "bitcoinData st \<noteq> []"
    and "''New Moon'' \<notin> moon_row.phase ` set (data st)"
  shows "processData ts st =
     Inr (st\<lparr>periodAverage := NaN,
             processedData :=
               map (\<lambda>ph. \<lparr>phase = ph, avgRange = ''0.00'', maxRange = ''0.00'',
                           minRange = ''0.00'', count = 0, periodAvg = ''NaN''\<rparr>)
                 phaseOrder\<rparr>)"
proof -
  from assms(3) have "newMoons (data st) = []"
    by (auto simp: newMoons_def filter_empty_conv image_iff)
  then have start: "startDate (data st) (selectedPeriod st) = None"
    by (rule startDate_no_new_moon)
  have rows: "relevantMoonData (data st) (selectedPeriod st) = []"
    by (simp add: relevantMoonData_def start date_ge_def split: option.splits)
  have "relevantBitcoinData (data st) (bitcoinData st) (selectedPeriod st) = []"
    by (simp add: relevantBitcoinData_def start date_ge_def split: option.splits)
  then have pm: "periodMean ts (data st) (bitcoinData st) (selectedPeriod st) = NaN"
    by (simp add: periodMean_def lodash_mean_def)
  show ?thesis
    unfolding processData_closed_form [OF assms(1,2)] rows pm
    by (simp add: processed_item_empty toFixed_NaN StringToNumber_NaN)
qed

text \<open>
  C4, as the code has it. When no moon row has the phase New Moon and both datasets are
  non-empty, \<^verbatim>\<open>processData\<close> returns normally; the start date is an invalid date, no row
  passes the comparison with it, and the table has the four entries with the range
  fields \<^verbatim>\<open>0.00\<close> and count 0. The period average is not zero: it is \<^verbatim>\<open>NaN\<close>, the mean
  of no value, and the field \<^verbatim>\<open>periodAvg\<close> of every entry is the string \<^verbatim>\<open>NaN\<close>.
\<close>

theorem no_new_moon_all_zero_with_NaN_average:
  assumes "data st \<noteq> []" and "bitcoinData st \<noteq> []"
    and "''New Moon'' \<notin> moon_row.phase ` set (data st)"
  shows "processData ts st =
     Inr (st\<lparr>periodAverage := NaN,
             processedData :=
               [\<lparr>phase = ''New Moon'', avgRange = ''0.00'', maxRange = ''0.00'',
                 minRange = ''0.00'', count = 0, periodAvg = ''NaN''\<rparr>,
                \<lparr>phase = ''First Quarter'', avgRange = ''0.00'', maxRange = ''0.00'',
                 minRange = ''0.00'', count = 0, periodAvg = ''NaN''\<rparr>,
                \<lparr>phase = ''Full Moon'', avgRange = ''0.00'', maxRange = ''0.00'',
                 minRange = ''0.00'', count = 0, periodAvg = ''NaN''\<rparr>,
                \<lparr>phase = ''Last Quarter'', avgRange = ''0.00'', maxRange = ''0.00'',
                 minRange = ''0.00'', count = 0, periodAvg = ''NaN''\<rparr>]\<rparr>)"
  unfolding no_new_moon_closed_form [OF assms] by (simp add: phaseOrder_def)

lemma moonless_premises:
  "data moonless_state \<noteq> []" "bitcoinData moonless_state \<noteq> []"
  "''New Moon'' \<notin> moon_row.phase ` set (data moonless_state)"
  by (simp_all add: moonless_state_def scenario_price_def moon_def)

theorem no_new_moon_all_zero_with_NaN_average_witness:
  "data moonless_state \<noteq> [] \<and> bitcoinData moonless_state \<noteq> [] \<and>
   ''New Moon'' \<notin> moon_row.phase ` set (data moonless_state) \<and>
   map count (processedData (projr (processData no_digits moonless_state))) = [0, 0, 0, 0] \<and>
   map avgRange (processedData (projr (processData no_digits moonless_state))) =
     [''0.00'', ''0.00'', ''0.00'', ''0.00'']"
  using no_new_moon_all_zero_with_NaN_average [OF moonless_premises, of no_digits]
    moonless_premises
  by simp

theorem no_new_moon_average_counterexample:
  "periodAverage (projr (processData no_digits moonless_state)) = NaN \<and>
   periodAverage (projr (processData no_digits moonless_state)) \<noteq> Fin 0 \<and>
   map periodAvg (processedData (projr (processData no_digits moonless_state))) =
     [''NaN'', ''NaN'', ''NaN'', ''NaN'']"
  unfolding no_new_moon_closed_form [OF moonless_premises]
  by (simp add: phaseOrder_def)

lemma validRanges_drops_unparsed:
  "validRanges entries =
     map (\<lambda>entry. parseFloat (price_range_percent entry))
       (filter (\<lambda>entry. parseFloat (price_range_percent entry) \<noteq> NaN) entries)"
  by (simp add: validRanges_def filter_map comp_def)

lemma parseFloat_missing: "parseFloat Null = NaN" "parseFloat Undefined = NaN"
  by simp_all

text \<open>
  C3. The claim's period average leaves out a missing value. In the code the price of an
  empty cell, \<^verbatim>\<open>null\<close>, passes the filter \<^verbatim>\<open>!isNaN\<close> of the period mean, because
  \<^verbatim>\<open>isNaN\<close> converts \<^verbatim>\<open>null\<close> to 0: with the prices 2 and \<^verbatim>\<open>null\<close> in the window the
  published average is 1.00, and the mean of the valid value alone is 2. The phase
  statistics apply \<^verbatim>\<open>parseFloat\<close> first, which turns \<^verbatim>\<open>null\<close> into \<^verbatim>\<open>NaN\<close>, and leave
  the value out.
\<close>

theorem empty_cell_counts_as_zero_in_period_average:
  "map price_range_percent
     (relevantBitcoinData (data empty_cell_state) (bitcoinData empty_cell_state) 1) =
     [Num (Fin 2), Null] \<and>
   isNaN Null = False \<and> parseFloat Null = NaN \<and>
   periodMean no_digits (data empty_cell_state) (bitcoinData empty_cell_state) 1 = Fin 1 \<and>
   lodash_mean no_digits [Num (Fin 2)] = Fin 2 \<and>
   periodAverage (projr (processData no_digits empty_cell_state)) = Fin 1 \<and>
   map periodAvg (processedData (projr (processData no_digits empty_cell_state))) =
     [''1.00'', ''1.00'', ''1.00'', ''1.00'']"
proof -
  have ne: "data empty_cell_state \<noteq> []" "bitcoinData empty_cell_state \<noteq> []"
    by (simp_all add: empty_cell_state_def scenario_moon_def)
  have sel: "data empty_cell_state = scenario_moon" "selectedPeriod empty_cell_state = 1"
      "bitcoinData empty_cell_state =
        [price (utc_date 2024 1 1) (Num (Fin 2)), price (utc_date 2024 1 8) Null]"
    by (simp_all add: empty_cell_state_def)
  have rows: "relevantBitcoinData scenario_moon
      [price (utc_date 2024 1 1) (Num (Fin 2)), price (utc_date 2024 1 8) Null] 1 =
      [price (utc_date 2024 1 1) (Num (Fin 2)), price (utc_date 2024 1 8) Null]"
    using scenario_window(1)
    by (simp add: relevantBitcoinData_def date_ge_def utc_date_def days_from_civil_def price_def)
  have pm: "periodMean no_digits scenario_moon
      [price (utc_date 2024 1 1) (Num (Fin 2)), price (utc_date 2024 1 8) Null] 1 = Fin 1"
    unfolding periodMean_def rows
    by (simp add: price_def lodash_mean_def baseSum_def js_add_def is_Str_def isNaN_def fl_eval)
  have one: "toFixed no_digits (Fin 1) 2 = ''1.00''"
    by (simp add: toFixed_eval)
  have number: "StringToNumber ''1.00'' = Fin 1"
    by (simp add: parse_eval fl_eval)
  have mean2: "lodash_mean no_digits [Num (Fin 2)] = Fin 2"
    by (simp add: lodash_mean_def baseSum_def fl_eval)
  show ?thesis
    unfolding processData_closed_form [OF ne] sel rows pm mean2
    by (simp add: price_def isNaN_def one number phaseOrder_def)
qed

lemma periodAvg_is_printed_periodMean:
  assumes "data st \<noteq> []" and "bitcoinData st \<noteq> []"
  shows "\<exists>st'. processData ts st = Inr st' \<and> length (processedData st') = 4 \<and>
    (\<forall>e\<in>set (processedData st').
        periodAvg e =
          toFixed ts (periodMean ts (data st) (bitcoinData st) (selectedPeriod st)) 2 \<and>
        ToNumber (Str (periodAvg e)) = periodAverage st')"
  unfolding processData_closed_form [OF assms]
  by (simp add: phaseOrder_def)

lemma periodMean_is_spec_mean:
  assumes "list_all (\<lambda>v. is_valid_number v \<or> isNaN v)
     (map (\<lambda>entry. price_range_percent entry) (relevantBitcoinData d b p))"
  shows "periodMean ts d b p = spec_period_mean ts d b p"
proof -
  have "(\<not> isNaN v) = is_valid_number v" if "is_valid_number v \<or> isNaN v" for v
    using that by (cases v) (auto simp: is_valid_number_def isNaN_def)
  with assms have "filter (\<lambda>range. \<not> isNaN range)
      (map (\<lambda>entry. price_range_percent entry) (relevantBitcoinData d b p)) =
    filter is_valid_number
      (map (\<lambda>entry. price_range_percent entry) (relevantBitcoinData d b p))"
    by (intro filter_cong refl) (auto simp: list_all_iff)
  then show ?thesis by (simp add: periodMean_def spec_period_mean_def)
qed

lemma empty_cell_premises:
  "data empty_cell_state \<noteq> []" "bitcoinData empty_cell_state \<noteq> []"
  by (simp_all add: empty_cell_state_def scenario_moon_def)

lemma empty_cell_fields:
  "data empty_cell_state = scenario_moon" "selectedPeriod empty_cell_state = 1"
  "bitcoinData empty_cell_state =
     [price (utc_date 2024 1 1) (Num (Fin 2)), price (utc_date 2024 1 8) Null]"
  by (simp_all add: empty_cell_state_def)

lemma empty_cell_window:
  "relevantBitcoinData scenario_moon
     [price (utc_date 2024 1 1) (Num (Fin 2)), price (utc_date 2024 1 8) Null] 1 =
   [price (utc_date 2024 1 1) (Num (Fin 2)), price (utc_date 2024 1 8) Null]"
  using scenario_window(1)
  by (simp add: relevantBitcoinData_def date_ge_def utc_date_def days_from_civil_def price_def)

lemma empty_cell_periodMean:
  "periodMean ts scenario_moon
     [price (utc_date 2024 1 1) (Num (Fin 2)), price (utc_date 2024 1 8) Null] 1 = Fin 1"
  unfolding periodMean_def empty_cell_window
  by (simp add: price_def lodash_mean_def baseSum_def js_add_def is_Str_def isNaN_def fl_eval)

lemma empty_cell_spec_mean:
  "spec_period_mean ts scenario_moon
     [price (utc_date 2024 1 1) (Num (Fin 2)), price (utc_date 2024 1 8) Null] 1 = Fin 2"
  unfolding spec_period_mean_def empty_cell_window
  by (simp add: price_def is_valid_number_def lodash_mean_def baseSum_def fl_eval)

text \<open>
  C2. The field \<^verbatim>\<open>periodAvg\<close> is the same string in all four entries of the published
  table and denotes the number published as \<^verbatim>\<open>periodAverage\<close>. The claim takes that
  number for the mean of the valid prices of the window, rounded to two decimals. In the
  code it is not, by the defect of C3: with the prices 2 and \<^verbatim>\<open>null\<close> in the window every
  entry has \<^verbatim>\<open>periodAvg\<close> \<^verbatim>\<open>1.00\<close> and \<^verbatim>\<open>periodAverage\<close> is 1, where the mean of the valid
  prices is 2, printed \<^verbatim>\<open>2.00\<close>.
\<close>

theorem periodAvg_is_not_mean_of_valid_prices:
  "processData no_digits empty_cell_state =
     Inr (empty_cell_state
       \<lparr>periodAverage := Fin 1,
        processedData :=
          [\<lparr>phase = ''New Moon'', avgRange = ''2.25'', maxRange = ''2.50'',
            minRange = ''2.00'', count = 2, periodAvg = ''1.00''\<rparr>,
           \<lparr>phase = ''First Quarter'', avgRange = ''3.00'', maxRange = ''3.00'',
            minRange = ''3.00'', count = 1, periodAvg = ''1.00''\<rparr>,
           \<lparr>phase = ''Full Moon'', avgRange = ''1.00'', maxRange = ''1.00'',
            minRange = ''1.00'', count = 1, periodAvg = ''1.00''\<rparr>,
           \<lparr>phase = ''Last Quarter'', avgRange = ''4.00'', maxRange = ''4.00'',
            minRange = ''4.00'', count = 1, periodAvg = ''1.00''\<rparr>]\<rparr>) \<and>
   spec_period_mean no_digits (data empty_cell_state) (bitcoinData empty_cell_state)
     (selectedPeriod empty_cell_state) = Fin 2 \<and>
   toFixed no_digits (Fin 2) 2 = ''2.00'' \<and> ToNumber (Str ''2.00'') = Fin 2 \<and>
   ''2.00'' \<noteq> ''1.00''"
proof -
  have run: "processData no_digits empty_cell_state =
     Inr (empty_cell_state
       \<lparr>periodAverage := Fin 1,
        processedData :=
          [\<lparr>phase = ''New Moon'', avgRange = ''2.25'', maxRange = ''2.50'',
            minRange = ''2.00'', count = 2, periodAvg = ''1.00''\<rparr>,
           \<lparr>phase = ''First Quarter'', avgRange = ''3.00'', maxRange = ''3.00'',
            minRange = ''3.00'', count = 1, periodAvg = ''1.00''\<rparr>,
           \<lparr>phase = ''Full Moon'', avgRange = ''1.00'', maxRange = ''1.00'',
            minRange = ''1.00'', count = 1, periodAvg = ''1.00''\<rparr>,
           \<lparr>phase = ''Last Quarter'', avgRange = ''4.00'', maxRange = ''4.00'',
            minRange = ''4.00'', count = 1, periodAvg = ''1.00''\<rparr>]\<rparr>)"
    unfolding processData_closed_form [OF empty_cell_premises] empty_cell_fields
      scenario_window empty_cell_periodMean
    by (simp add: phaseOrder_def scenario_moon_def moon_def stats_eval fl_eval toFixed_eval
        parse_eval)
  have spec: "spec_period_mean no_digits (data empty_cell_state)
      (bitcoinData empty_cell_state) (selectedPeriod empty_cell_state) = Fin 2"
    unfolding empty_cell_fields by (rule empty_cell_spec_mean)
  have printed: "toFixed no_digits (Fin 2) 2 = ''2.00''"
    by (simp add: toFixed_eval)
  have number: "ToNumber (Str ''2.00'') = Fin 2"
    by (simp add: parse_eval fl_eval)
  from run spec printed number show ?thesis
    by (simp only: simp_thms) simp
qed

subsection \<open>Rounded statistics\<close>








lemma dec_digits_nonempty: "dec_digits n \<noteq> []"
  by (subst dec_digits.simps) simp

























end
